theory Spec2Isabelle
  imports Complex_Main
begin

section \<open>The RAG tutorial pipeline (rag\_tutorial.py)\<close>

text \<open>
  The program is a sequential driver over three collaborators: a PostgreSQL server with the
  pgvector extension, reached through one psycopg connection opened with autocommit, the
  Ollama embedding endpoint and the Ollama generation endpoint. The functions of the
  source are embedded as state-passing functions over a \<open>world\<close> that holds the state of
  the database server, the status of the connection, the requests sent to Ollama so far and
  the text printed on the console. What Ollama answers is a parameter (\<open>ollama\<close>), and so is
  the value of pgvector's cosine distance operator.
\<close>

subsection \<open>Configuration constants\<close>

definition GENERATION_MODEL :: string where
  "GENERATION_MODEL = ''gemma3:270m''"

definition EMBEDDING_MODEL :: string where
  "EMBEDDING_MODEL = ''nomic-embed-text''"

definition VECTOR_DIMENSION :: nat where
  "VECTOR_DIMENSION = 768"

subsection \<open>Python strings\<close>

text \<open>
  A Python \<open>str\<close> is modelled as a \<open>string\<close> whose characters are the code points below
  256. \<open>py_isspace\<close> lists the code points of that range that \<open>str.strip()\<close> removes:
  tab to carriage return, the separators 0x1C to 0x1F, the space, NEL (0x85) and the
  no-break space (0xA0).
\<close>

abbreviation NL :: string where
  "NL \<equiv> [CHR 0x0A]"

definition py_isspace :: "char \<Rightarrow> bool" where
  "py_isspace c = (of_char c \<in> ({9..13} \<union> {28..32} \<union> {133, 160} :: nat set))"

definition str_strip :: "string \<Rightarrow> string" where
  "str_strip s = rev (dropWhile py_isspace (rev (dropWhile py_isspace s)))"

text \<open>\<open>s.split(sep)\<close> for a one-character separator: one more part than separators.\<close>

fun str_split :: "char \<Rightarrow> string \<Rightarrow> string list" where
  "str_split sep [] = [[]]"
| "str_split sep (c # cs) =
     (if c = sep then [] # str_split sep cs
      else (case str_split sep cs of
              [] \<Rightarrow> [[c]]
            | part # parts \<Rightarrow> (c # part) # parts))"

text \<open>\<open>sep.join(parts)\<close>.\<close>

fun str_join :: "string \<Rightarrow> string list \<Rightarrow> string" where
  "str_join sep [] = []"
| "str_join sep [part] = part"
| "str_join sep (part # parts) = part @ sep @ str_join sep parts"

text \<open>
  Lines 150 and 151 of the source:
  \<^verbatim>\<open>chunks = document.split('.')\<close> and
  \<^verbatim>\<open>chunks = [chunk.strip() for chunk in chunks if chunk.strip()]\<close>.
\<close>

definition chunks_of :: "string \<Rightarrow> string list" where
  "chunks_of document =
     map str_strip (filter (\<lambda>chunk. str_strip chunk \<noteq> []) (str_split (CHR ''.'') document))"

text \<open>The document that \<open>ingest_data\<close> hardcodes (a triple-quoted literal).\<close>

definition document :: string where
  "document =
     NL @ ''    A llama is a domesticated South American camelid, widely used as a meat and pack animal by Andean cultures since the pre-Columbian era.''
     @ NL @ ''    Llamas are social animals and live in herds. The largest are the guanacos, which can weigh up to 300 pounds.''
     @ NL @ ''    Llamas can be quite calm and cooperative if they are raised correctly, which makes them great companions for people in the mountains.''
     @ NL @ ''    A female llama gives birth standing up. The gestation period for a llama is about 11.5 months.''
     @ NL @ ''    The llamas have long, thick necks, a small head with a cleft upper lip, and long ears.''
     @ NL @ ''    ''"

subsection \<open>Exceptions\<close>

text \<open>
  The exceptions the \<open>except\<close> clauses of the source tell apart: \<open>psycopg.OperationalError\<close>
  (caught in \<open>setup_database\<close>), \<open>ollama.RequestError\<close> and \<open>ollama.ResponseError\<close> (caught
  together in \<open>ingest_data\<close> and \<open>run_rag_query\<close>), and everything else that
  \<open>except Exception\<close> catches: an error the database raises for a statement, and any other
  exception of the Ollama client.
\<close>

datatype pg_failure =
    UndefinedTable
  | NulInText
  | ExpectedDimensions nat nat
  | DifferentDimensions nat nat
  | NoDimensions
  | TooManyDimensions nat
  | InfiniteValue

datatype py_exn =
    OperationalError string
  | StatementError pg_failure
  | RequestError string
  | ResponseError string
  | OtherException string

fun is_ollama_error :: "py_exn \<Rightarrow> bool" where
  "is_ollama_error (RequestError m) = True"
| "is_ollama_error (ResponseError m) = True"
| "is_ollama_error e = False"

subsection \<open>The world: database server, connection, Ollama requests, console\<close>

type_synonym vector = "real list"

text \<open>
  A record of the \<open>documents\<close> table: \<open>content TEXT, embedding VECTOR(n)\<close>. The
  \<open>id SERIAL\<close> column is assigned by the server and never read by the program; it is not
  part of the model. Floating-point numbers are idealised as reals.
\<close>

record documents_row =
  content :: string
  embedding :: vector

text \<open>A table keeps the dimension its \<open>embedding\<close> column was declared with.\<close>

record documents_table =
  vec_dim :: nat
  rows :: "documents_row list"

datatype conn_status = NoConnection | ConnOpen | ConnClosed

datatype conn = PgConnection

datatype ollama_request =
    EmbeddingsRequest string string
  | GenerateRequest string string

text \<open>
  A piece of console output: literal text, a number or an exception rendered by an
  f-string (their rendering is Python's and is not modelled).
\<close>

datatype piece = Lit string | Num nat | Exn py_exn

text \<open>
  \<open>pg_unreachable\<close> is \<open>Some m\<close> when \<open>psycopg.connect\<close> fails with the message \<open>m\<close>;
  \<open>pg_vector_installed\<close> says whether \<open>pg_extension\<close> has a row for \<open>vector\<close>;
  \<open>documents\<close> is the table, \<open>None\<close> when it does not exist; \<open>connection\<close> is the
  status of the one connection of the run; \<open>requests\<close> are the requests sent to Ollama,
  oldest first; \<open>console\<close> is the standard output.
\<close>

record world =
  pg_unreachable :: "string option"
  pg_vector_installed :: bool
  documents :: "documents_table option"
  connection :: conn_status
  requests :: "ollama_request list"
  console :: "piece list"

text \<open>
  The Ollama server: what it answers to a request for the model and the prompt given, after
  the requests it has received before (so that an answer may differ from one call to the
  next). An embeddings request raises or returns the vector of the response (a response
  without the key \<open>embedding\<close> raises at the subscript, inside the same \<open>try\<close>); a
  streamed generation yields text fragments and may end by raising.
\<close>

record ollama =
  embeddings_reply :: "ollama_request list \<Rightarrow> string \<Rightarrow> string \<Rightarrow> py_exn + vector"
  generate_reply :: "ollama_request list \<Rightarrow> string \<Rightarrow> string \<Rightarrow> string list \<times> py_exn option"

subsection \<open>Console\<close>

text \<open>\<open>print(..., end=e)\<close>, and \<open>print(...)\<close> whose end is a newline.\<close>

definition print_end :: "piece list \<Rightarrow> string \<Rightarrow> world \<Rightarrow> world" where
  "print_end ps e w = w\<lparr>console := console w @ ps @ [Lit e]\<rparr>"

definition print :: "piece list \<Rightarrow> world \<Rightarrow> world" where
  "print ps w = print_end ps NL w"

subsection \<open>The database server\<close>

text \<open>
  The statements the program sends. The model of the server covers: a server that cannot be
  reached, a missing extension, a missing table, the type checks of an insert (text without
  NUL, a vector of the declared dimension whose components stay finite in single
  precision), the checks of the dimension of a vector literal (at least one, at most 16000)
  and the check of the distance operator (operands of equal dimension). The range of the
  components of the query literal is not checked in the model. A connection that is open
  stays usable, and the drop and create statements succeed.
\<close>

definition pg_connect :: "world \<Rightarrow> (py_exn + conn) \<times> world" where
  "pg_connect w =
     (case pg_unreachable w of
        Some m \<Rightarrow> (Inl (OperationalError m), w)
      | None \<Rightarrow> (Inr PgConnection, w\<lparr>connection := ConnOpen\<rparr>))"

definition conn_close :: "conn \<Rightarrow> world \<Rightarrow> world" where
  "conn_close c w = w\<lparr>connection := ConnClosed\<rparr>"

text \<open>\<open>conn.cursor()\<close> raises on a connection that is not open.\<close>

definition conn_cursor :: "conn \<Rightarrow> world \<Rightarrow> py_exn + unit" where
  "conn_cursor c w =
     (if connection w = ConnOpen then Inr ()
      else Inl (OperationalError ''the connection is closed''))"

text \<open>\<^verbatim>\<open>DROP TABLE IF EXISTS documents;\<close>\<close>

definition pg_drop_table :: "world \<Rightarrow> world" where
  "pg_drop_table w = w\<lparr>documents := None\<rparr>"

text \<open>\<^verbatim>\<open>CREATE TABLE documents (id SERIAL PRIMARY KEY, content TEXT, embedding VECTOR(n));\<close>
  sent right after the drop.\<close>

definition pg_create_table :: "nat \<Rightarrow> world \<Rightarrow> world" where
  "pg_create_table n w = w\<lparr>documents := Some \<lparr>vec_dim = n, rows = []\<rparr>\<rparr>"

text \<open>
  pgvector stores the components of a vector in single precision. A component converts to
  a finite single-precision number when its magnitude is below the point from which
  rounding to nearest gives infinity, half a unit in the last place above the largest
  finite value \<open>2 ^ 128 - 2 ^ 104\<close>; a vector with a component beyond is rejected
  (\<open>infinite value not allowed in vector\<close>). Infinities and NaN are not values of the
  reals that idealise the floating-point numbers.
\<close>

definition float4_finite :: "real \<Rightarrow> bool" where
  "float4_finite x = (\<bar>x\<bar> < 2 ^ 128 - 2 ^ 103)"

text \<open>
  \<^verbatim>\<open>INSERT INTO documents (content, embedding) VALUES (%s, %s);\<close>
  With autocommit an accepted row is committed at once; a rejected statement leaves the
  table as it was.
\<close>

definition pg_insert :: "string \<Rightarrow> vector \<Rightarrow> world \<Rightarrow> (py_exn + unit) \<times> world" where
  "pg_insert body vec w =
     (if CHR 0x00 \<in> set body then (Inl (StatementError NulInText), w)
      else case documents w of
             None \<Rightarrow> (Inl (StatementError UndefinedTable), w)
           | Some t \<Rightarrow>
               if length vec \<noteq> vec_dim t
               then (Inl (StatementError (ExpectedDimensions (vec_dim t) (length vec))), w)
               else if \<exists>x\<in>set vec. \<not> float4_finite x
               then (Inl (StatementError InfiniteValue), w)
               else (Inr (),
                     w\<lparr>documents :=
                         Some (t\<lparr>rows := rows t @ [\<lparr>content = body, embedding = vec\<rparr>]\<rparr>)\<rparr>))"

text \<open>
  \<^verbatim>\<open>SELECT content FROM documents ORDER BY embedding <=> %s::vector LIMIT 3;\<close>
  The rows in the order of the distance of their vector to the query vector, the first
  three of them. \<open>distance\<close> is the value of the operator \<open><=>\<close>, stored vector first. SQL
  leaves the order of rows at equal distance open; the model keeps them in the order of
  insertion. The program renders the query vector as a literal \<open>[x1,x2,...]\<close>; the model
  passes the vector.
\<close>

definition nearest_rows ::
  "(vector \<Rightarrow> vector \<Rightarrow> real) \<Rightarrow> vector \<Rightarrow> documents_row list \<Rightarrow> documents_row list" where
  "nearest_rows distance q rs = take 3 (sort_key (\<lambda>r. distance (embedding r) q) rs)"

definition pg_select_nearest ::
  "(vector \<Rightarrow> vector \<Rightarrow> real) \<Rightarrow> vector \<Rightarrow> world \<Rightarrow> py_exn + string list" where
  "pg_select_nearest distance q w =
     (case documents w of
        None \<Rightarrow> Inl (StatementError UndefinedTable)
      | Some t \<Rightarrow>
          if q = [] then Inl (StatementError NoDimensions)
          else if 16000 < length q then Inl (StatementError (TooManyDimensions (length q)))
          else (case find (\<lambda>r. length (embedding r) \<noteq> length q) (rows t) of
                  Some r \<Rightarrow>
                    Inl (StatementError (DifferentDimensions (length (embedding r)) (length q)))
                | None \<Rightarrow> Inr (map content (nearest_rows distance q (rows t)))))"

subsection \<open>The Ollama client\<close>

definition client_embeddings ::
  "ollama \<Rightarrow> string \<Rightarrow> string \<Rightarrow> world \<Rightarrow> (py_exn + vector) \<times> world" where
  "client_embeddings srv model prompt w =
     (embeddings_reply srv (requests w) model prompt,
      w\<lparr>requests := requests w @ [EmbeddingsRequest model prompt]\<rparr>)"

definition client_generate ::
  "ollama \<Rightarrow> string \<Rightarrow> string \<Rightarrow> world \<Rightarrow> (string list \<times> py_exn option) \<times> world" where
  "client_generate srv model prompt w =
     (generate_reply srv (requests w) model prompt,
      w\<lparr>requests := requests w @ [GenerateRequest model prompt]\<rparr>)"

subsection \<open>Step 1: \<open>setup_database\<close>\<close>

definition setup_database :: "world \<Rightarrow> conn option \<times> world" where
  "setup_database w0 =
     (let w1 = print [Lit (NL @ ''--- Connecting to PostgreSQL database ---'')] w0 in
      case pg_connect w1 of
        (Inl e, w2) \<Rightarrow>
          (None,
           print [Lit ''Details: '', Exn e]
             (print [Lit (NL @ ''Error: Could not connect to PostgreSQL. Please ensure the Docker container is running and accessible.'')] w2))
      | (Inr c, w2) \<Rightarrow>
          (let w3 = print [Lit ''Connection successful!''] w2 in
           if \<not> pg_vector_installed w3 then
             (None,
              print [Lit ''If you're running a different PostgreSQL image, you may need to install it manually.'']
                (print [Lit ''This script uses the 'ankane/pgvector' Docker image which has it pre-installed.'']
                  (print [Lit ''pgvector extension not found. Please ensure your Docker image supports it.''] w3)))
           else
             (let w4 = print [Lit ''pgvector extension is installed.''] w3;
                  w5 = pg_drop_table w4;
                  w6 = pg_create_table VECTOR_DIMENSION w5;
                  w7 = print [Lit ''Table 'documents' created successfully with a VECTOR('',
                              Num VECTOR_DIMENSION, Lit '') column.''] w6
              in (Some c, w7))))"

subsection \<open>Step 2: \<open>ingest_data\<close>\<close>

text \<open>The two \<open>except\<close> clauses inside the loop; both are followed by \<open>return False\<close>.\<close>

definition ingest_except :: "py_exn \<Rightarrow> world \<Rightarrow> world" where
  "ingest_except e w =
     (if is_ollama_error e then
        print [Lit ''Details: '', Exn e]
          (print [Lit (NL @ ''Error: Could not connect to Ollama. Please ensure the Docker container is running and the model is pulled.'')] w)
      else print [Lit ''An unexpected error occurred: '', Exn e] w)"

text \<open>The loop \<open>for chunk in chunks\<close>: its result is \<open>False\<close> when an iteration returned
  \<open>False\<close>, \<open>True\<close> when the loop ran to its end.\<close>

fun ingest_chunks :: "ollama \<Rightarrow> string list \<Rightarrow> world \<Rightarrow> bool \<times> world" where
  "ingest_chunks srv [] w = (True, w)"
| "ingest_chunks srv (chunk # chunks) w =
     (let w1 = print [Lit (''Processing chunk: '' @ [CHR 0x27]), Lit (take 50 chunk),
                      Lit (''...'' @ [CHR 0x27])] w
      in case client_embeddings srv EMBEDDING_MODEL chunk w1 of
           (Inl e, w2) \<Rightarrow> (False, ingest_except e w2)
         | (Inr vec, w2) \<Rightarrow>
             (case pg_insert chunk vec w2 of
                (Inl e, w3) \<Rightarrow> (False, ingest_except e w3)
              | (Inr u, w3) \<Rightarrow>
                  ingest_chunks srv chunks
                    (print [Lit ''Inserted chunk into database. Vector dimension: '',
                            Num (length vec)] w3)))"

text \<open>
  \<open>ingest_data\<close> with its document as a parameter. \<open>conn.cursor()\<close> is outside the
  \<open>try\<close>: on a connection that is not open its exception leaves the function.
\<close>

definition ingest_document ::
  "ollama \<Rightarrow> conn \<Rightarrow> string \<Rightarrow> world \<Rightarrow> (py_exn + bool) \<times> world" where
  "ingest_document srv c doc w0 =
     (let w1 = print [Lit (NL @ ''--- Ingesting sample data and creating embeddings ---'')] w0;
          chunks = chunks_of doc
      in case conn_cursor c w1 of
           Inl e \<Rightarrow> (Inl e, w1)
         | Inr cur \<Rightarrow>
             (case ingest_chunks srv chunks w1 of
                (False, w2) \<Rightarrow> (Inr False, w2)
              | (True, w2) \<Rightarrow> (Inr True, print [Lit (NL @ ''Data ingestion complete.'')] w2)))"

definition ingest_data :: "ollama \<Rightarrow> conn \<Rightarrow> world \<Rightarrow> (py_exn + bool) \<times> world" where
  "ingest_data srv c w = ingest_document srv c document w"

subsection \<open>Step 3: \<open>run_rag_query\<close>\<close>

text \<open>The retrieval: the embedding of the question, then the nearest-neighbour query.\<close>

definition retrieve_docs ::
  "ollama \<Rightarrow> (vector \<Rightarrow> vector \<Rightarrow> real) \<Rightarrow> conn \<Rightarrow> string \<Rightarrow> world
     \<Rightarrow> (py_exn + string list) \<times> world" where
  "retrieve_docs srv distance c user_query w0 =
     (case client_embeddings srv EMBEDDING_MODEL user_query w0 of
        (Inl e, w1) \<Rightarrow> (Inl e, w1)
      | (Inr query_embedding, w1) \<Rightarrow>
          (case conn_cursor c w1 of
             Inl e \<Rightarrow> (Inl e, w1)
           | Inr cur \<Rightarrow> (pg_select_nearest distance query_embedding w1, w1)))"

text \<open>\<open>for i, doc in enumerate(retrieved_docs): print(f"Chunk {i+1}: {doc}")\<close>\<close>

fun print_chunks :: "nat \<Rightarrow> string list \<Rightarrow> world \<Rightarrow> world" where
  "print_chunks i [] w = w"
| "print_chunks i (doc # docs) w =
     print_chunks (Suc i) docs (print [Lit ''Chunk '', Num (i + 1), Lit '': '', Lit doc] w)"

definition rag_prompt :: "string \<Rightarrow> string \<Rightarrow> string" where
  "rag_prompt context user_query =
     ''Based on the provided context, answer the question clearly and helpfully. Use only information from the context.''
     @ NL @ NL @ ''Context: '' @ context
     @ NL @ NL @ ''Question: '' @ user_query
     @ NL @ NL @ ''Answer:''"

text \<open>The loop over the stream: each fragment is appended to the answer and printed
  without a newline.\<close>

fun consume_stream :: "string list \<Rightarrow> string \<Rightarrow> world \<Rightarrow> string \<times> world" where
  "consume_stream [] full_response w = (full_response, w)"
| "consume_stream (response_text # stream) full_response w =
     consume_stream stream (full_response @ response_text)
       (print_end [Lit response_text] [] w)"

text \<open>The body of the \<open>try\<close> block after the retrieval.\<close>

definition generate_answer ::
  "ollama \<Rightarrow> string \<Rightarrow> string list \<Rightarrow> world \<Rightarrow> (py_exn + string) \<times> world" where
  "generate_answer srv user_query retrieved_docs w0 =
     (let w1 = print [Lit (NL @ ''--- Retrieved the following relevant chunks from the database ---'')] w0;
          w2 = print_chunks 0 retrieved_docs w1;
          context = str_join '' '' retrieved_docs;
          prompt = rag_prompt context user_query;
          w3 = print [Lit (NL @ ''--- Generating response with Gemma 3:270M ---'')] w2
      in case client_generate srv GENERATION_MODEL prompt w3 of
           ((stream, failure), w4) \<Rightarrow>
             (let w5 = print [Lit ''Response:''] w4 in
              case consume_stream stream [] w5 of
                (full_response, w6) \<Rightarrow>
                  (case failure of
                     Some e \<Rightarrow> (Inl e, w6)
                   | None \<Rightarrow>
                       (Inr full_response,
                        print [Lit (NL @ NL @ ''--- RAG process complete ---'')] w6))))"

definition query_except :: "py_exn \<Rightarrow> world \<Rightarrow> world" where
  "query_except e w =
     (if is_ollama_error e then
        print [Lit ''Details: '', Exn e]
          (print [Lit (NL @ ''Error: Could not connect to Ollama. Please ensure the Docker container is running and the model is pulled.'')] w)
      else print [Lit ''An unexpected error occurred during the RAG process: '', Exn e] w)"

definition run_rag_query ::
  "ollama \<Rightarrow> (vector \<Rightarrow> vector \<Rightarrow> real) \<Rightarrow> conn \<Rightarrow> string \<Rightarrow> world
     \<Rightarrow> string option \<times> world" where
  "run_rag_query srv distance c user_query w0 =
     (let w1 = print [Lit (NL @ ''--- Processing user query: '' @ [CHR 0x27]), Lit user_query,
                      Lit ([CHR 0x27] @ '' ---'')] w0
      in case retrieve_docs srv distance c user_query w1 of
           (Inl e, w2) \<Rightarrow> (None, query_except e w2)
         | (Inr retrieved_docs, w2) \<Rightarrow>
             (case generate_answer srv user_query retrieved_docs w2 of
                (Inl e, w3) \<Rightarrow> (None, query_except e w3)
              | (Inr full_response, w3) \<Rightarrow> (Some full_response, w3)))"

subsection \<open>The driver: \<open>main\<close>\<close>

definition user_question :: string where
  "user_question = ''What makes a llama a good companion?''"

text \<open>
  The result is \<open>Inl e\<close> when an exception leaves \<open>main\<close>. \<open>time.sleep(2)\<close> changes
  nothing in the world.
\<close>

definition main ::
  "ollama \<Rightarrow> (vector \<Rightarrow> vector \<Rightarrow> real) \<Rightarrow> world \<Rightarrow> (py_exn + unit) \<times> world" where
  "main srv distance w0 =
     (let w1 = print [Lit ''Welcome to the Interactive RAG Tutorial!''] w0;
          w2 = print [Lit ''This script will demonstrate how to build a RAG system using local tools.''] w1
      in case setup_database w2 of
           (None, w3) \<Rightarrow> (Inr (), w3)
         | (Some c, w3) \<Rightarrow>
             (case ingest_data srv c w3 of
                (Inl e, w4) \<Rightarrow> (Inl e, w4)
              | (Inr ingestion_success, w4) \<Rightarrow>
                  if \<not> ingestion_success then (Inr (), conn_close c w4)
                  else (case run_rag_query srv distance c user_question w4 of
                          (answer, w5) \<Rightarrow> (Inr (), conn_close c w5))))"

subsection \<open>Notions used to state the properties\<close>

text \<open>
  The fragments of a document split on the full stop, each fragment trimmed, the empty ones
  discarded.
\<close>

definition nonempty_fragments :: "string \<Rightarrow> string list" where
  "nonempty_fragments doc =
     filter (\<lambda>fragment. fragment \<noteq> []) (map str_strip (str_split (CHR ''.'') doc))"

text \<open>
  The fragments when every sentence-terminating punctuation mark splits: the full stop, the
  exclamation mark and the question mark.
\<close>

definition sentence_terminator :: "char \<Rightarrow> bool" where
  "sentence_terminator c = (c = CHR ''.'' \<or> c = CHR ''!'' \<or> c = CHR ''?'')"

fun split_where :: "(char \<Rightarrow> bool) \<Rightarrow> string \<Rightarrow> string list" where
  "split_where p [] = [[]]"
| "split_where p (c # cs) =
     (if p c then [] # split_where p cs
      else (case split_where p cs of
              [] \<Rightarrow> [[c]]
            | part # parts \<Rightarrow> (c # part) # parts))"

definition sentence_fragments :: "string \<Rightarrow> string list" where
  "sentence_fragments doc =
     filter (\<lambda>fragment. fragment \<noteq> []) (map str_strip (split_where sentence_terminator doc))"

text \<open>The texts of the records of the table in the order of insertion, and their number.\<close>

definition stored_contents :: "world \<Rightarrow> string list" where
  "stored_contents w = (case documents w of None \<Rightarrow> [] | Some t \<Rightarrow> map content (rows t))"

definition stored_count :: "world \<Rightarrow> nat" where
  "stored_count w = (case documents w of None \<Rightarrow> 0 | Some t \<Rightarrow> length (rows t))"

text \<open>
  What the embedding service answers when it is asked for the chunks in turn, after the
  requests \<open>sent\<close>: \<open>Some\<close> of the records (chunk, vector) when every request succeeds,
  \<open>None\<close> as soon as one fails.
\<close>

fun embedded :: "ollama \<Rightarrow> ollama_request list \<Rightarrow> string list \<Rightarrow> documents_row list option" where
  "embedded srv sent [] = Some []"
| "embedded srv sent (chunk # chunks) =
     (case embeddings_reply srv sent EMBEDDING_MODEL chunk of
        Inl e \<Rightarrow> None
      | Inr vec \<Rightarrow>
          map_option ((#) \<lparr>content = chunk, embedding = vec\<rparr>)
            (embedded srv (sent @ [EmbeddingsRequest EMBEDDING_MODEL chunk]) chunks))"

text \<open>The records the table with the column dimension of \<open>t\<close> accepts in an insert.\<close>

definition pg_accepts :: "documents_table \<Rightarrow> documents_row \<Rightarrow> bool" where
  "pg_accepts t r =
     (CHR 0x00 \<notin> set (content r) \<and> length (embedding r) = vec_dim t
      \<and> (\<forall>x\<in>set (embedding r). float4_finite x))"

text \<open>
  The invariant of the data model: the vector column of the table, when the table exists,
  has the configured dimension, and so has every vector stored in it.
\<close>

definition dimension_invariant :: "world \<Rightarrow> bool" where
  "dimension_invariant w =
     (case documents w of
        None \<Rightarrow> True
      | Some t \<Rightarrow>
          vec_dim t = VECTOR_DIMENSION
          \<and> (\<forall>r\<in>set (rows t). length (embedding r) = VECTOR_DIMENSION))"

subsection \<open>Example worlds and servers\<close>

text \<open>A reachable server with the extension and no table; the world after its set-up.\<close>

definition initial_world :: world where
  "initial_world =
     \<lparr>pg_unreachable = None, pg_vector_installed = True, documents = None,
      connection = NoConnection, requests = [], console = []\<rparr>"

definition ready_world :: world where
  "ready_world = snd (setup_database initial_world)"

text \<open>An embedding service that answers every request with a vector of one dimension.\<close>

definition short_ollama :: ollama where
  "short_ollama =
     \<lparr>embeddings_reply = (\<lambda>sent model prompt. Inr [1]),
      generate_reply = (\<lambda>sent model prompt. ([], None))\<rparr>"

text \<open>A service whose vectors have the configured dimension and a first component beyond
  the range of single precision.\<close>

definition huge_ollama :: ollama where
  "huge_ollama =
     \<lparr>embeddings_reply =
        (\<lambda>sent model prompt. Inr (10 ^ 39 # replicate (VECTOR_DIMENSION - 1) 0)),
      generate_reply = (\<lambda>sent model prompt. ([], None))\<rparr>"

text \<open>A service whose vectors have the configured dimension; the first component is the
  code of the first character of the prompt.\<close>

definition demo_vector :: "string \<Rightarrow> vector" where
  "demo_vector prompt =
     (case prompt of [] \<Rightarrow> 0 | ch # rest \<Rightarrow> real (of_char ch))
       # replicate (VECTOR_DIMENSION - 1) 0"

definition demo_ollama :: ollama where
  "demo_ollama =
     \<lparr>embeddings_reply = (\<lambda>sent model prompt. Inr (demo_vector prompt)),
      generate_reply = (\<lambda>sent model prompt. ([''Llamas '', ''are calm.''], None))\<rparr>"

text \<open>The same service, failing from its third request on.\<close>

definition flaky_ollama :: ollama where
  "flaky_ollama =
     \<lparr>embeddings_reply = (\<lambda>sent model prompt.
         if length sent < 2 then Inr (demo_vector prompt)
         else Inl (RequestError ''connection refused'')),
      generate_reply = (\<lambda>sent model prompt. ([], None))\<rparr>"

text \<open>A stand-in for the distance operator: the gap between the first components.\<close>

definition demo_distance :: "vector \<Rightarrow> vector \<Rightarrow> real" where
  "demo_distance u v =
     (case u of [] \<Rightarrow> 0 | x # xs \<Rightarrow> (case v of [] \<Rightarrow> 0 | y # ys \<Rightarrow> \<bar>x - y\<bar>))"

text \<open>The same server without the extension, and one that refuses the connection.\<close>

definition no_extension_world :: world where
  "no_extension_world = initial_world\<lparr>pg_vector_installed := False\<rparr>"

definition unreachable_world :: world where
  "unreachable_world = initial_world\<lparr>pg_unreachable := Some ''connection refused''\<rparr>"

text \<open>The world after the ingestion of a document of four sentences.\<close>

definition stocked_world :: world where
  "stocked_world = snd (ingest_document demo_ollama PgConnection ''D. A. C. B.'' ready_world)"

section \<open>Properties\<close>

subsection \<open>What each step leaves unchanged\<close>

lemma print_fields [simp]:
  "pg_unreachable (print ps w) = pg_unreachable w"
  "pg_vector_installed (print ps w) = pg_vector_installed w"
  "documents (print ps w) = documents w"
  "connection (print ps w) = connection w"
  "requests (print ps w) = requests w"
  "console (print ps w) = console w @ ps @ [Lit NL]"
  by (simp_all add: print_def print_end_def)

lemma print_end_fields [simp]:
  "pg_unreachable (print_end ps e w) = pg_unreachable w"
  "pg_vector_installed (print_end ps e w) = pg_vector_installed w"
  "documents (print_end ps e w) = documents w"
  "connection (print_end ps e w) = connection w"
  "requests (print_end ps e w) = requests w"
  "console (print_end ps e w) = console w @ ps @ [Lit e]"
  by (simp_all add: print_end_def)

lemma ingest_except_fields [simp]:
  "pg_unreachable (ingest_except e w) = pg_unreachable w"
  "pg_vector_installed (ingest_except e w) = pg_vector_installed w"
  "documents (ingest_except e w) = documents w"
  "connection (ingest_except e w) = connection w"
  "requests (ingest_except e w) = requests w"
  by (simp_all add: ingest_except_def)

lemma print_chunks_fields [simp]:
  "documents (print_chunks i docs w) = documents w"
  "connection (print_chunks i docs w) = connection w"
  "requests (print_chunks i docs w) = requests w"
  by (induction docs arbitrary: i w) simp_all

lemma consume_stream_fields [simp]:
  "fst (consume_stream stream full_response w) = full_response @ concat stream"
  "documents (snd (consume_stream stream full_response w)) = documents w"
  "connection (snd (consume_stream stream full_response w)) = connection w"
  "requests (snd (consume_stream stream full_response w)) = requests w"
  by (induction stream arbitrary: full_response w) simp_all

lemma query_except_fields [simp]:
  "documents (query_except e w) = documents w"
  "connection (query_except e w) = connection w"
  "requests (query_except e w) = requests w"
  by (simp_all add: query_except_def)

lemma conn_close_fields [simp]:
  "documents (conn_close c w) = documents w"
  "requests (conn_close c w) = requests w"
  "connection (conn_close c w) = ConnClosed"
  by (simp_all add: conn_close_def)

lemma pg_insert_fields [simp]:
  "connection (snd (pg_insert body vec w)) = connection w"
  "requests (snd (pg_insert body vec w)) = requests w"
  by (simp_all add: pg_insert_def split: option.splits)

lemma pg_insert_frame:
  assumes "pg_insert body vec w = (r, w')"
  shows "connection w' = connection w \<and> requests w' = requests w"
  using assms pg_insert_fields [of body vec w] by auto

subsection \<open>Chunking\<close>

lemma chunks_of_fragments: "chunks_of doc = nonempty_fragments doc"
  by (simp add: chunks_of_def nonempty_fragments_def filter_map comp_def)

text \<open>The split of the code is the split at the characters equal to the separator, and a
  split depends on its predicate at the characters of the string only.\<close>

lemma str_split_where: "str_split sep s = split_where (\<lambda>c. c = sep) s"
  by (induction s) simp_all

lemma split_where_cong:
  "\<forall>c\<in>set s. p c = q c \<Longrightarrow> split_where p s = split_where q s"
  by (induction s) simp_all

lemma chunks_of_sentence_fragments:
  assumes "CHR ''!'' \<notin> set doc" and "CHR ''?'' \<notin> set doc"
  shows "chunks_of doc = sentence_fragments doc"
proof -
  have "\<forall>c\<in>set doc. (c = CHR ''.'') = sentence_terminator c"
    using assms by (auto simp add: sentence_terminator_def)
  then have "split_where (\<lambda>c. c = CHR ''.'') doc = split_where sentence_terminator doc"
    by (rule split_where_cong)
  then show ?thesis
    by (simp add: chunks_of_fragments nonempty_fragments_def sentence_fragments_def
        str_split_where)
qed

text \<open>The hardcoded document has eight chunks; the full stop of \<open>11.5\<close> splits a sentence.\<close>

lemma chunks_of_document:
  "chunks_of document =
     [''A llama is a domesticated South American camelid, widely used as a meat and pack animal by Andean cultures since the pre-Columbian era'',
      ''Llamas are social animals and live in herds'',
      ''The largest are the guanacos, which can weigh up to 300 pounds'',
      ''Llamas can be quite calm and cooperative if they are raised correctly, which makes them great companions for people in the mountains'',
      ''A female llama gives birth standing up'',
      ''The gestation period for a llama is about 11'',
      ''5 months'',
      ''The llamas have long, thick necks, a small head with a cleft upper lip, and long ears'']"
  by (simp add: chunks_of_def document_def str_strip_def py_isspace_def)

lemma chunks_of_ABC: "chunks_of ''A. B. C.'' = [''A'', ''B'', ''C'']"
  by (simp add: chunks_of_def str_strip_def py_isspace_def)

lemma chunks_of_DACB: "chunks_of ''D. A. C. B.'' = [''D'', ''A'', ''C'', ''B'']"
  by (simp add: chunks_of_def str_strip_def py_isspace_def)

lemma str_strip_blank:
  assumes "\<forall>ch\<in>set s. py_isspace ch"
  shows "str_strip s = []"
proof -
  have blank: "dropWhile py_isspace s = []" using assms by simp
  show ?thesis unfolding str_strip_def blank by simp
qed

lemma str_split_parts:
  "part \<in> set (str_split sep s) \<Longrightarrow> set part \<subseteq> set s - {sep}"
proof (induction s arbitrary: part)
  case Nil
  then show ?case by simp
next
  case (Cons ch s)
  show ?case
  proof (cases "ch = sep")
    case True
    with Cons show ?thesis by auto
  next
    case False
    show ?thesis
    proof (cases "str_split sep s")
      case Nil
      with Cons.prems False show ?thesis by auto
    next
      case (Cons p ps)
      with Cons.prems False Cons.IH [of p] Cons.IH [of part] show ?thesis by auto
    qed
  qed
qed

lemma chunks_of_blank:
  assumes "\<forall>ch\<in>set doc. py_isspace ch \<or> ch = CHR ''.''"
  shows "chunks_of doc = []"
proof -
  have "str_strip part = []" if "part \<in> set (str_split (CHR ''.'') doc)" for part
    using str_split_parts [OF that] assms by (intro str_strip_blank) auto
  then show ?thesis
    by (simp add: chunks_of_def filter_empty_conv)
qed

subsection \<open>Set-up\<close>

lemma setup_database_unreachable:
  "pg_unreachable w = Some m \<Longrightarrow>
   setup_database w =
     (None,
      print [Lit ''Details: '', Exn (OperationalError m)]
        (print [Lit (NL @ ''Error: Could not connect to PostgreSQL. Please ensure the Docker container is running and accessible.'')]
          (print [Lit (NL @ ''--- Connecting to PostgreSQL database ---'')] w)))"
  by (simp add: setup_database_def pg_connect_def)

lemma setup_database_no_extension:
  "pg_unreachable w = None \<Longrightarrow> \<not> pg_vector_installed w \<Longrightarrow>
   setup_database w =
     (None,
      print [Lit ''If you're running a different PostgreSQL image, you may need to install it manually.'']
        (print [Lit ''This script uses the 'ankane/pgvector' Docker image which has it pre-installed.'']
          (print [Lit ''pgvector extension not found. Please ensure your Docker image supports it.'']
            (print [Lit ''Connection successful!'']
              ((print [Lit (NL @ ''--- Connecting to PostgreSQL database ---'')] w)
                 \<lparr>connection := ConnOpen\<rparr>)))))"
  by (simp add: setup_database_def pg_connect_def)

lemma setup_database_connected:
  assumes "setup_database w = (Some c, w')"
  shows "pg_unreachable w = None" and "pg_vector_installed w"
    and "documents w' = Some \<lparr>vec_dim = VECTOR_DIMENSION, rows = []\<rparr>"
    and "connection w' = ConnOpen" and "requests w' = requests w"
  using assms
  by (auto simp add: setup_database_def pg_connect_def pg_drop_table_def pg_create_table_def
      Let_def split: option.splits if_splits)

lemma ready_world_fields:
  "setup_database initial_world = (Some PgConnection, ready_world)"
  "documents ready_world = Some \<lparr>vec_dim = VECTOR_DIMENSION, rows = []\<rparr>"
  "connection ready_world = ConnOpen"
  "requests ready_world = []"
  by (simp_all add: ready_world_def initial_world_def setup_database_def pg_connect_def
      pg_drop_table_def pg_create_table_def)

subsection \<open>The ingestion loop\<close>

lemma embedded_content: "embedded srv sent chunks = Some rs \<Longrightarrow> map content rs = chunks"
  by (induction chunks arbitrary: sent rs) (auto split: sum.splits)

text \<open>When every request succeeds and every insert is accepted, the loop runs to its end
  and appends one record per chunk.\<close>

lemma ingest_chunks_all:
  "documents w = Some t \<Longrightarrow> embedded srv (requests w) chunks = Some rs
   \<Longrightarrow> \<forall>r\<in>set rs. pg_accepts t r
   \<Longrightarrow> fst (ingest_chunks srv chunks w) = True
     \<and> documents (snd (ingest_chunks srv chunks w)) = Some (t\<lparr>rows := rows t @ rs\<rparr>)
     \<and> requests (snd (ingest_chunks srv chunks w))
         = requests w @ map (EmbeddingsRequest EMBEDDING_MODEL) chunks
     \<and> connection (snd (ingest_chunks srv chunks w)) = connection w"
proof (induction chunks arbitrary: w t rs)
  case Nil
  then show ?case by simp
next
  case (Cons chunk chunks)
  from Cons.prems(2) obtain vec rs' where
    reply: "embeddings_reply srv (requests w) EMBEDDING_MODEL chunk = Inr vec" and
    rest: "embedded srv (requests w @ [EmbeddingsRequest EMBEDDING_MODEL chunk]) chunks = Some rs'" and
    rs: "rs = \<lparr>content = chunk, embedding = vec\<rparr> # rs'"
    by (auto split: sum.splits)
  from Cons.prems(3) rs have ok: "CHR 0x00 \<notin> set chunk" "length vec = vec_dim t"
      "\<forall>x\<in>set vec. float4_finite x"
    and ok': "\<forall>r\<in>set rs'. pg_accepts t r"
    by (simp_all add: pg_accepts_def)
  let ?t' = "t\<lparr>rows := rows t @ [\<lparr>content = chunk, embedding = vec\<rparr>]\<rparr>"
  obtain w' where step: "ingest_chunks srv (chunk # chunks) w = ingest_chunks srv chunks w'"
    and w': "documents w' = Some ?t'"
      "requests w' = requests w @ [EmbeddingsRequest EMBEDDING_MODEL chunk]"
      "connection w' = connection w"
    using reply ok Cons.prems(1)
    by (simp add: client_embeddings_def pg_insert_def)
  have ok'': "\<forall>r\<in>set rs'. pg_accepts ?t' r"
    using ok' by (simp add: pg_accepts_def)
  from Cons.IH [of w' ?t' rs'] rest ok'' rs step w' show ?case
    by simp
qed

lemma ingest_chunks_append:
  "ingest_chunks srv (pre @ rest) w =
     (if fst (ingest_chunks srv pre w) then ingest_chunks srv rest (snd (ingest_chunks srv pre w))
      else ingest_chunks srv pre w)"
  by (induction pre arbitrary: w) (auto split: prod.splits sum.splits)

lemma ingest_chunks_request_fails:
  assumes "embeddings_reply srv (requests w) EMBEDDING_MODEL chunk = Inl e"
  shows "fst (ingest_chunks srv (chunk # post) w) = False"
    and "documents (snd (ingest_chunks srv (chunk # post) w)) = documents w"
    and "requests (snd (ingest_chunks srv (chunk # post) w))
           = requests w @ [EmbeddingsRequest EMBEDDING_MODEL chunk]"
    and "connection (snd (ingest_chunks srv (chunk # post) w)) = connection w"
  using assms by (simp_all add: client_embeddings_def)

text \<open>The loop stops at the first request that fails.\<close>

lemma ingest_chunks_abort:
  assumes "documents w = Some t" and "embedded srv (requests w) pre = Some rs"
    and "\<forall>r\<in>set rs. pg_accepts t r"
    and "embeddings_reply srv (requests w @ map (EmbeddingsRequest EMBEDDING_MODEL) pre)
           EMBEDDING_MODEL chunk = Inl e"
  shows "fst (ingest_chunks srv (pre @ chunk # post) w) = False"
    and "documents (snd (ingest_chunks srv (pre @ chunk # post) w)) = Some (t\<lparr>rows := rows t @ rs\<rparr>)"
    and "requests (snd (ingest_chunks srv (pre @ chunk # post) w))
           = requests w @ map (EmbeddingsRequest EMBEDDING_MODEL) (pre @ [chunk])"
    and "connection (snd (ingest_chunks srv (pre @ chunk # post) w)) = connection w"
proof -
  let ?w = "snd (ingest_chunks srv pre w)"
  from ingest_chunks_all [OF assms(1-3)]
  have pre: "fst (ingest_chunks srv pre w) = True"
    "documents ?w = Some (t\<lparr>rows := rows t @ rs\<rparr>)"
    "requests ?w = requests w @ map (EmbeddingsRequest EMBEDDING_MODEL) pre"
    "connection ?w = connection w"
    by simp_all
  have run: "ingest_chunks srv (pre @ chunk # post) w = ingest_chunks srv (chunk # post) ?w"
    using pre(1) by (simp add: ingest_chunks_append)
  have reply: "embeddings_reply srv (requests ?w) EMBEDDING_MODEL chunk = Inl e"
    using assms(4) pre(3) by simp
  show "fst (ingest_chunks srv (pre @ chunk # post) w) = False"
    unfolding run by (rule ingest_chunks_request_fails(1) [OF reply])
  show "documents (snd (ingest_chunks srv (pre @ chunk # post) w)) = Some (t\<lparr>rows := rows t @ rs\<rparr>)"
    unfolding run ingest_chunks_request_fails(2) [OF reply] by (rule pre(2))
  show "requests (snd (ingest_chunks srv (pre @ chunk # post) w))
           = requests w @ map (EmbeddingsRequest EMBEDDING_MODEL) (pre @ [chunk])"
    unfolding run ingest_chunks_request_fails(3) [OF reply] using pre(3) by simp
  show "connection (snd (ingest_chunks srv (pre @ chunk # post) w)) = connection w"
    unfolding run ingest_chunks_request_fails(4) [OF reply] by (rule pre(4))
qed

text \<open>An insert is accepted exactly when the table exists and accepts the record.\<close>

lemma pg_insert_accepts:
  "fst (pg_insert body vec w) = Inr ()
     \<longleftrightarrow> (\<exists>t. documents w = Some t \<and> pg_accepts t \<lparr>content = body, embedding = vec\<rparr>)"
  by (auto simp add: pg_insert_def pg_accepts_def split: option.splits)

text \<open>On an open connection \<open>ingest_document\<close> returns what its loop returns.\<close>

lemma ingest_document_open:
  assumes "connection w = ConnOpen"
  shows "ingest_document srv c doc w =
     (if fst (ingest_chunks srv (chunks_of doc)
               (print [Lit (NL @ ''--- Ingesting sample data and creating embeddings ---'')] w))
      then (Inr True,
            print [Lit (NL @ ''Data ingestion complete.'')]
              (snd (ingest_chunks srv (chunks_of doc)
                     (print [Lit (NL @ ''--- Ingesting sample data and creating embeddings ---'')] w))))
      else (Inr False,
            snd (ingest_chunks srv (chunks_of doc)
                  (print [Lit (NL @ ''--- Ingesting sample data and creating embeddings ---'')] w))))"
proof (cases "ingest_chunks srv (chunks_of doc)
               (print [Lit (NL @ ''--- Ingesting sample data and creating embeddings ---'')] w)")
  case (Pair ok w2)
  with assms show ?thesis
    by (cases ok) (simp_all add: ingest_document_def conn_cursor_def)
qed

lemma ingest_chunks_connection [simp]:
  "connection (snd (ingest_chunks srv chunks w)) = connection w"
  by (induction chunks arbitrary: w)
    (auto simp add: client_embeddings_def Let_def split: sum.splits prod.splits
      dest!: pg_insert_frame)

lemma ingest_document_connection [simp]:
  "connection (snd (ingest_document srv c doc w)) = connection w"
proof (cases "connection w = ConnOpen")
  case True
  show ?thesis unfolding ingest_document_open [OF True] by simp
next
  case False
  then show ?thesis by (simp add: ingest_document_def conn_cursor_def)
qed

lemma stocked_world_fields:
  "documents stocked_world
     = Some \<lparr>vec_dim = VECTOR_DIMENSION,
             rows = [\<lparr>content = ''D'', embedding = demo_vector ''D''\<rparr>,
                     \<lparr>content = ''A'', embedding = demo_vector ''A''\<rparr>,
                     \<lparr>content = ''C'', embedding = demo_vector ''C''\<rparr>,
                     \<lparr>content = ''B'', embedding = demo_vector ''B''\<rparr>]\<rparr>"
  "connection stocked_world = ConnOpen"
  by (simp_all add: stocked_world_def ingest_document_open ready_world_fields chunks_of_DACB
      demo_ollama_def client_embeddings_def pg_insert_def demo_vector_def VECTOR_DIMENSION_def
      float4_finite_def)



text \<open>A vector of the right dimension with a component out of range is rejected, and the
  ingestion returns \<open>False\<close> with nothing stored.\<close>

lemma ingest_rejects_infinite_component:
  "fst (ingest_document huge_ollama PgConnection ''A.'' ready_world) = Inr False
   \<and> stored_count (snd (ingest_document huge_ollama PgConnection ''A.'' ready_world)) = 0"
proof -
  have c: "chunks_of ''A.'' = [''A'']"
    by (simp add: chunks_of_def str_strip_def py_isspace_def)
  show ?thesis
    by (simp add: c ready_world_fields ingest_document_open huge_ollama_def
        client_embeddings_def pg_insert_def VECTOR_DIMENSION_def float4_finite_def
        stored_count_def)
qed

subsection \<open>The nearest-neighbour query\<close>

lemma sorted_nearest_rows:
  "sorted (map (\<lambda>r. distance (embedding r) q) (nearest_rows distance q rs))"
  unfolding nearest_rows_def take_map [symmetric]
  by (intro sorted_wrt_take sorted_sort_key)

lemma length_nearest_rows: "length (nearest_rows distance q rs) = min 3 (length rs)"
  by (simp add: nearest_rows_def)

lemma set_nearest_rows: "set (nearest_rows distance q rs) \<subseteq> set rs"
  unfolding nearest_rows_def
  using set_take_subset [of 3 "sort_key (\<lambda>r. distance (embedding r) q) rs"]
  by simp

lemma pg_select_nearest_Inr:
  assumes "pg_select_nearest distance q w = Inr docs"
  shows "\<exists>t. documents w = Some t \<and> q \<noteq> []
           \<and> (\<forall>r\<in>set (rows t). length (embedding r) = length q)
           \<and> docs = map content (nearest_rows distance q (rows t))"
  using assms
  by (auto simp add: pg_select_nearest_def find_None_iff split: option.splits if_splits)

lemma retrieve_docs_Inr:
  assumes "retrieve_docs srv distance c user_query w = (Inr docs, w')"
  shows "\<exists>q. embeddings_reply srv (requests w) EMBEDDING_MODEL user_query = Inr q
           \<and> connection w = ConnOpen
           \<and> pg_select_nearest distance q w = Inr docs
           \<and> w' = w\<lparr>requests := requests w @ [EmbeddingsRequest EMBEDDING_MODEL user_query]\<rparr>"
  using assms
  by (auto simp add: retrieve_docs_def client_embeddings_def conn_cursor_def
      pg_select_nearest_def split: sum.splits if_splits)

lemma retrieve_docs_fields [simp]:
  "documents (snd (retrieve_docs srv distance c user_query w)) = documents w"
  "connection (snd (retrieve_docs srv distance c user_query w)) = connection w"
  "requests (snd (retrieve_docs srv distance c user_query w))
     = requests w @ [EmbeddingsRequest EMBEDDING_MODEL user_query]"
  by (simp_all add: retrieve_docs_def client_embeddings_def split: sum.splits)

lemma retrieve_docs_frame:
  assumes "retrieve_docs srv distance c user_query w = (r, w')"
  shows "documents w' = documents w \<and> connection w' = connection w"
  using assms retrieve_docs_fields(1,2) [of srv distance c user_query w] by auto

lemma generate_answer_result:
  "fst (generate_answer srv user_query docs w) =
     (case generate_reply srv (requests w) GENERATION_MODEL
             (rag_prompt (str_join '' '' docs) user_query) of
        (stream, Some e) \<Rightarrow> Inl e
      | (stream, None) \<Rightarrow> Inr (concat stream))"
  by (simp add: generate_answer_def client_generate_def Let_def
      split: prod.splits option.splits)
    (metis consume_stream_fields(1) fst_conv append_Nil)

lemma generate_answer_fields [simp]:
  "documents (snd (generate_answer srv user_query docs w)) = documents w"
  "connection (snd (generate_answer srv user_query docs w)) = connection w"
  "requests (snd (generate_answer srv user_query docs w))
     = requests w @ [GenerateRequest GENERATION_MODEL
                       (rag_prompt (str_join '' '' docs) user_query)]"
proof -
  let ?w3 = "(print [Lit (NL @ ''--- Generating response with Gemma 3:270M ---'')]
               (print_chunks 0 docs
                 (print [Lit (NL @ ''--- Retrieved the following relevant chunks from the database ---'')] w)))
             \<lparr>requests := requests w @ [GenerateRequest GENERATION_MODEL
                       (rag_prompt (str_join '' '' docs) user_query)]\<rparr>"
  obtain stream failure where g: "generate_reply srv (requests w) GENERATION_MODEL
             (rag_prompt (str_join '' '' docs) user_query) = (stream, failure)"
    by (cases "generate_reply srv (requests w) GENERATION_MODEL
             (rag_prompt (str_join '' '' docs) user_query)")
  let ?w6 = "snd (consume_stream stream [] (print [Lit ''Response:''] ?w3))"
  have "snd (generate_answer srv user_query docs w) =
          (case failure of Some e \<Rightarrow> ?w6
           | None \<Rightarrow> print [Lit (NL @ NL @ ''--- RAG process complete ---'')] ?w6)"
    using g by (simp add: generate_answer_def client_generate_def Let_def
        split: prod.splits option.splits)
  then show "documents (snd (generate_answer srv user_query docs w)) = documents w"
    "connection (snd (generate_answer srv user_query docs w)) = connection w"
    "requests (snd (generate_answer srv user_query docs w))
     = requests w @ [GenerateRequest GENERATION_MODEL
                       (rag_prompt (str_join '' '' docs) user_query)]"
    by (simp_all split: option.splits)
qed

lemma generate_answer_frame:
  assumes "generate_answer srv user_query docs w = (a, w')"
  shows "documents w' = documents w \<and> connection w' = connection w"
  using assms generate_answer_fields(1,2) [of srv user_query docs w] by auto

lemma run_rag_query_fields [simp]:
  "documents (snd (run_rag_query srv distance c user_query w)) = documents w"
  "connection (snd (run_rag_query srv distance c user_query w)) = connection w"
  by (auto simp add: run_rag_query_def split: prod.splits sum.splits
      dest!: retrieve_docs_frame generate_answer_frame)


lemma pg_select_nearest_print [simp]:
  "pg_select_nearest distance q (print ps w) = pg_select_nearest distance q w"
  by (simp add: pg_select_nearest_def)

lemma retrieve_docs_open:
  assumes "connection w = ConnOpen"
    and "embeddings_reply srv (requests w) EMBEDDING_MODEL user_query = Inr q"
  shows "fst (retrieve_docs srv distance c user_query w) = pg_select_nearest distance q w"
  using assms
  by (simp add: retrieve_docs_def client_embeddings_def conn_cursor_def pg_select_nearest_def)

lemma run_rag_query_cases:
  "run_rag_query srv distance c user_query w =
     (let r = retrieve_docs srv distance c user_query
                (print [Lit (NL @ ''--- Processing user query: '' @ [CHR 0x27]), Lit user_query,
                        Lit ([CHR 0x27] @ '' ---'')] w)
      in case fst r of
           Inl e \<Rightarrow> (None, query_except e (snd r))
         | Inr docs \<Rightarrow>
             (let g = generate_answer srv user_query docs (snd r)
              in case fst g of
                   Inl e \<Rightarrow> (None, query_except e (snd g))
                 | Inr full_response \<Rightarrow> (Some full_response, snd g)))"
  by (simp add: run_rag_query_def Let_def split: prod.splits sum.splits)

lemma run_rag_query_answer:
  assumes "connection w = ConnOpen"
    and "embeddings_reply srv (requests w) EMBEDDING_MODEL user_query = Inr q"
    and "pg_select_nearest distance q w = Inr docs"
    and "generate_reply srv (requests w @ [EmbeddingsRequest EMBEDDING_MODEL user_query])
           GENERATION_MODEL (rag_prompt (str_join '' '' docs) user_query) = (stream, None)"
  shows "fst (run_rag_query srv distance c user_query w) = Some (concat stream)"
    and "requests (snd (run_rag_query srv distance c user_query w))
           = requests w @ [EmbeddingsRequest EMBEDDING_MODEL user_query,
                           GenerateRequest GENERATION_MODEL
                             (rag_prompt (str_join '' '' docs) user_query)]"
proof -
  let ?r = "retrieve_docs srv distance c user_query
                (print [Lit (NL @ ''--- Processing user query: '' @ [CHR 0x27]), Lit user_query,
                        Lit ([CHR 0x27] @ '' ---'')] w)"
  let ?g = "generate_answer srv user_query docs (snd ?r)"
  have r: "fst ?r = Inr docs"
    using assms(1,2,3) by (subst retrieve_docs_open [where q = q]) simp_all
  have q2: "requests (snd ?r) = requests w @ [EmbeddingsRequest EMBEDDING_MODEL user_query]"
    by simp
  have g: "fst ?g = Inr (concat stream)"
    unfolding generate_answer_result q2 using assms(4) by simp
  have run: "run_rag_query srv distance c user_query w = (Some (concat stream), snd ?g)"
    unfolding run_rag_query_cases Let_def r sum.case g by (rule refl)
  show "fst (run_rag_query srv distance c user_query w) = Some (concat stream)"
    unfolding run by simp
  show "requests (snd (run_rag_query srv distance c user_query w))
           = requests w @ [EmbeddingsRequest EMBEDDING_MODEL user_query,
                           GenerateRequest GENERATION_MODEL
                             (rag_prompt (str_join '' '' docs) user_query)]"
    unfolding run by simp
qed

subsection \<open>The dimension invariant\<close>

lemma dimension_invariant_cong:
  "documents w' = documents w \<Longrightarrow> dimension_invariant w' = dimension_invariant w"
  by (simp add: dimension_invariant_def)

lemma pg_insert_invariant:
  "dimension_invariant w \<Longrightarrow> dimension_invariant (snd (pg_insert body vec w))"
  by (auto simp add: dimension_invariant_def pg_insert_def split: option.splits)

lemma ingest_chunks_invariant:
  "dimension_invariant w \<Longrightarrow> dimension_invariant (snd (ingest_chunks srv chunks w))"
proof (induction chunks arbitrary: w)
  case Nil
  then show ?case by simp
next
  case (Cons chunk chunks)
  let ?w1 = "print [Lit (''Processing chunk: '' @ [CHR 0x27]), Lit (take 50 chunk),
                      Lit (''...'' @ [CHR 0x27])] w"
  let ?w2 = "?w1\<lparr>requests := requests ?w1 @ [EmbeddingsRequest EMBEDDING_MODEL chunk]\<rparr>"
  have inv2: "dimension_invariant ?w2"
    using Cons.prems by (simp add: dimension_invariant_def)
  show ?case
  proof (cases "embeddings_reply srv (requests ?w1) EMBEDDING_MODEL chunk")
    case (Inl e)
    then have "snd (ingest_chunks srv (chunk # chunks) w) = ingest_except e ?w2"
      by (simp add: client_embeddings_def)
    with inv2 show ?thesis by (simp add: dimension_invariant_def)
  next
    case (Inr vec)
    obtain r w3 where ins: "pg_insert chunk vec ?w2 = (r, w3)"
      by (cases "pg_insert chunk vec ?w2")
    have inv3: "dimension_invariant w3"
      using pg_insert_invariant [OF inv2, of chunk vec] ins by simp
    show ?thesis
    proof (cases r)
      case (Inl e)
      with Inr ins have "snd (ingest_chunks srv (chunk # chunks) w) = ingest_except e w3"
        by (simp add: client_embeddings_def)
      with inv3 show ?thesis by (simp add: dimension_invariant_def)
    next
      case u: (Inr u)
      let ?w4 = "print [Lit ''Inserted chunk into database. Vector dimension: '',
                            Num (length vec)] w3"
      from Inr ins u have "ingest_chunks srv (chunk # chunks) w = ingest_chunks srv chunks ?w4"
        by (simp add: client_embeddings_def)
      moreover have "dimension_invariant ?w4"
        using inv3 by (simp add: dimension_invariant_def)
      ultimately show ?thesis using Cons.IH [of ?w4] by simp
    qed
  qed
qed

lemma ingest_document_invariant:
  "dimension_invariant w \<Longrightarrow> dimension_invariant (snd (ingest_document srv c doc w))"
proof -
  assume inv: "dimension_invariant w"
  let ?w1 = "print [Lit (NL @ ''--- Ingesting sample data and creating embeddings ---'')] w"
  have inv1: "dimension_invariant ?w1" using inv by (simp add: dimension_invariant_def)
  note loop = ingest_chunks_invariant [OF inv1, of srv "chunks_of doc"]
  show ?thesis
  proof (cases "connection w = ConnOpen")
    case True
    show ?thesis
      unfolding ingest_document_open [OF True] using loop
      by (simp add: dimension_invariant_def)
  next
    case False
    then show ?thesis using inv1
      by (simp add: ingest_document_def conn_cursor_def)
  qed
qed

lemma setup_database_establishes:
  "fst (setup_database w) \<noteq> None \<Longrightarrow> dimension_invariant (snd (setup_database w))"
  using setup_database_connected(3) [of w _ "snd (setup_database w)"]
  by (cases "setup_database w") (auto simp add: dimension_invariant_def)

lemma setup_database_invariant:
  "dimension_invariant w \<Longrightarrow> dimension_invariant (snd (setup_database w))"
  by (auto simp add: setup_database_def pg_connect_def pg_drop_table_def pg_create_table_def
      dimension_invariant_def Let_def split: option.splits)

subsection \<open>The driver\<close>

lemma main_cases:
  "main srv distance w =
     (let w2 = print [Lit ''This script will demonstrate how to build a RAG system using local tools.'']
                 (print [Lit ''Welcome to the Interactive RAG Tutorial!''] w);
          w3 = snd (setup_database w2);
          w4 = snd (ingest_data srv PgConnection w3);
          w5 = snd (run_rag_query srv distance PgConnection user_question w4)
      in if fst (setup_database w2) = None then (Inr (), w3)
         else (case fst (ingest_data srv PgConnection w3) of
                 Inl e \<Rightarrow> (Inl e, w4)
               | Inr ingestion_success \<Rightarrow>
                   if ingestion_success then (Inr (), conn_close PgConnection w5)
                   else (Inr (), conn_close PgConnection w4)))"
proof -
  let ?w2 = "print [Lit ''This script will demonstrate how to build a RAG system using local tools.'']
                 (print [Lit ''Welcome to the Interactive RAG Tutorial!''] w)"
  obtain r w3 where s: "setup_database ?w2 = (r, w3)"
    by (cases "setup_database ?w2")
  show ?thesis
  proof (cases r)
    case None
    with s show ?thesis by (simp add: main_def)
  next
    case (Some c)
    then have r: "r = Some PgConnection" by (cases c) simp
    obtain i w4 where i: "ingest_data srv PgConnection w3 = (i, w4)"
      by (cases "ingest_data srv PgConnection w3")
    obtain a w5 where a: "run_rag_query srv distance PgConnection user_question w4 = (a, w5)"
      by (cases "run_rag_query srv distance PgConnection user_question w4")
    from s r i a show ?thesis
      by (cases i) (simp_all add: main_def)
  qed
qed

lemma main_invariant:
  assumes "dimension_invariant w"
  shows "dimension_invariant (snd (main srv distance w))"
proof -
  let ?w2 = "print [Lit ''This script will demonstrate how to build a RAG system using local tools.'']
                 (print [Lit ''Welcome to the Interactive RAG Tutorial!''] w)"
  let ?w3 = "snd (setup_database ?w2)"
  let ?w4 = "snd (ingest_data srv PgConnection ?w3)"
  let ?w5 = "snd (run_rag_query srv distance PgConnection user_question ?w4)"
  have "dimension_invariant ?w2" using assms by (simp add: dimension_invariant_def)
  then have i3: "dimension_invariant ?w3" by (rule setup_database_invariant)
  then have i4: "dimension_invariant ?w4"
    unfolding ingest_data_def by (rule ingest_document_invariant)
  then have i5: "dimension_invariant ?w5" by (simp add: dimension_invariant_def)
  from i4 have c4: "dimension_invariant (conn_close PgConnection ?w4)"
    by (simp add: dimension_invariant_def)
  from i5 have c5: "dimension_invariant (conn_close PgConnection ?w5)"
    by (simp add: dimension_invariant_def)
  show ?thesis
    unfolding main_cases Let_def using i3 i4 c4 c5 by (simp split: sum.splits)
qed

lemma main_establishes:
  assumes "pg_unreachable w = None" and "pg_vector_installed w"
  shows "dimension_invariant (snd (main srv distance w))"
proof -
  let ?w2 = "print [Lit ''This script will demonstrate how to build a RAG system using local tools.'']
                 (print [Lit ''Welcome to the Interactive RAG Tutorial!''] w)"
  let ?w3 = "snd (setup_database ?w2)"
  let ?w4 = "snd (ingest_data srv PgConnection ?w3)"
  let ?w5 = "snd (run_rag_query srv distance PgConnection user_question ?w4)"
  have s: "fst (setup_database ?w2) \<noteq> None"
    using assms by (simp add: setup_database_def pg_connect_def Let_def)
  then have i3: "dimension_invariant ?w3" by (rule setup_database_establishes)
  then have i4: "dimension_invariant ?w4"
    unfolding ingest_data_def by (rule ingest_document_invariant)
  then have i5: "dimension_invariant ?w5" by (simp add: dimension_invariant_def)
  from i4 have c4: "dimension_invariant (conn_close PgConnection ?w4)"
    by (simp add: dimension_invariant_def)
  from i5 have c5: "dimension_invariant (conn_close PgConnection ?w5)"
    by (simp add: dimension_invariant_def)
  show ?thesis
    unfolding main_cases Let_def using i3 i4 c4 c5 by (simp split: sum.splits)
qed

lemma main_closes_after_setup:
  assumes "pg_unreachable w = None" and "pg_vector_installed w"
  shows "fst (main srv distance w) = Inr ()"
    and "connection (snd (main srv distance w)) = ConnClosed"
proof -
  let ?w2 = "print [Lit ''This script will demonstrate how to build a RAG system using local tools.'']
                 (print [Lit ''Welcome to the Interactive RAG Tutorial!''] w)"
  let ?w3 = "snd (setup_database ?w2)"
  have s: "fst (setup_database ?w2) \<noteq> None" and o: "connection ?w3 = ConnOpen"
    using assms
    by (simp_all add: setup_database_def pg_connect_def Let_def pg_drop_table_def
        pg_create_table_def)
  have r: "\<exists>b. fst (ingest_data srv PgConnection ?w3) = Inr b"
    unfolding ingest_data_def ingest_document_open [OF o] by auto
  show "fst (main srv distance w) = Inr ()"
    unfolding main_cases Let_def using s r by auto
  show "connection (snd (main srv distance w)) = ConnClosed"
    unfolding main_cases Let_def using s r by auto
qed

lemma main_unreachable_never_opens:
  assumes "pg_unreachable w = Some m"
  shows "connection (snd (main srv distance w)) = connection w"
  unfolding main_cases Let_def using assms by (simp add: setup_database_unreachable)

section \<open>The claims\<close>

text \<open>
  Claim C1, as stated, fails at two inputs. First, every embedding request succeeds and
  still no record is stored: the service answers the request for the only chunk of the
  document \<open>A.\<close> with a vector of one dimension, the insert into the \<open>VECTOR(768)\<close> column
  is rejected, \<open>except Exception\<close> catches the error and \<open>ingest_data\<close> returns \<open>False\<close>.
  Second, the code splits on the full stop only: the document \<open>A! B? C.\<close> has three
  sentence fragments, and its ingestion succeeds with one record, \<open>A! B? C\<close>.
\<close>

theorem ingest_count_counterexample:
  "embedded short_ollama (requests ready_world) (chunks_of ''A.'')
     = Some [\<lparr>content = ''A'', embedding = [1]\<rparr>]
   \<and> fst (ingest_document short_ollama PgConnection ''A.'' ready_world) = Inr False
   \<and> stored_count (snd (ingest_document short_ollama PgConnection ''A.'' ready_world)) = 0
   \<and> length (sentence_fragments ''A.'') = 1
   \<and> embedded demo_ollama (requests ready_world) (chunks_of ''A! B? C.'')
       = Some [\<lparr>content = ''A! B? C'', embedding = demo_vector ''A! B? C''\<rparr>]
   \<and> fst (ingest_document demo_ollama PgConnection ''A! B? C.'' ready_world) = Inr True
   \<and> stored_contents (snd (ingest_document demo_ollama PgConnection ''A! B? C.'' ready_world))
       = [''A! B? C'']
   \<and> stored_count (snd (ingest_document demo_ollama PgConnection ''A! B? C.'' ready_world)) = 1
   \<and> length (sentence_fragments ''A! B? C.'') = 3"
proof -
  have c: "chunks_of ''A.'' = [''A'']"
    by (simp add: chunks_of_def str_strip_def py_isspace_def)
  have f: "sentence_fragments ''A.'' = [''A'']"
    by (simp add: sentence_fragments_def sentence_terminator_def str_strip_def py_isspace_def)
  have c': "chunks_of ''A! B? C.'' = [''A! B? C'']"
    by (simp add: chunks_of_def str_strip_def py_isspace_def)
  have f': "sentence_fragments ''A! B? C.'' = [''A'', ''B'', ''C'']"
    by (simp add: sentence_fragments_def sentence_terminator_def str_strip_def py_isspace_def)
  have one: "embedded short_ollama (requests ready_world) (chunks_of ''A.'')
     = Some [\<lparr>content = ''A'', embedding = [1]\<rparr>]
   \<and> fst (ingest_document short_ollama PgConnection ''A.'' ready_world) = Inr False
   \<and> stored_count (snd (ingest_document short_ollama PgConnection ''A.'' ready_world)) = 0"
    by (simp add: c ready_world_fields ingest_document_open short_ollama_def
        client_embeddings_def pg_insert_def VECTOR_DIMENSION_def stored_count_def)
  have two: "embedded demo_ollama (requests ready_world) (chunks_of ''A! B? C.'')
       = Some [\<lparr>content = ''A! B? C'', embedding = demo_vector ''A! B? C''\<rparr>]
   \<and> fst (ingest_document demo_ollama PgConnection ''A! B? C.'' ready_world) = Inr True
   \<and> stored_contents (snd (ingest_document demo_ollama PgConnection ''A! B? C.'' ready_world))
       = [''A! B? C'']
   \<and> stored_count (snd (ingest_document demo_ollama PgConnection ''A! B? C.'' ready_world)) = 1"
    by (simp add: c' ready_world_fields ingest_document_open demo_ollama_def
        client_embeddings_def pg_insert_def demo_vector_def VECTOR_DIMENSION_def
        float4_finite_def stored_count_def stored_contents_def)
  from one two show ?thesis by (simp add: f f')
qed

text \<open>
  Claim C1, amended: for every document, the chunks of the ingestion are the fragments of
  the document split on the full stop, trimmed, the empty ones discarded (they are the
  sentence fragments when the document has no exclamation or question mark); and when
  every embedding request succeeds and every insert is accepted by the database, the
  ingestion returns \<open>True\<close> and stores one record per fragment, with the text of the
  fragment, in the order of the document: the number of records stored equals the number
  of non-empty fragments after trimming, and on the empty table that the set-up leaves it
  is the number of records of the table. An insert is accepted when the table exists, the
  vector has the dimension of the column with components that stay finite in single
  precision, and the text has no NUL character.
\<close>

theorem ingest_stores_one_record_per_fragment:
  assumes "connection w = ConnOpen" and "documents w = Some t"
    and "embedded srv (requests w) (chunks_of doc) = Some rs"
    and "\<forall>r\<in>set rs. length (embedding r) = vec_dim t
           \<and> (\<forall>x\<in>set (embedding r). float4_finite x)
           \<and> CHR 0x00 \<notin> set (content r)"
  shows "chunks_of doc = nonempty_fragments doc
     \<and> (CHR ''!'' \<notin> set doc \<and> CHR ''?'' \<notin> set doc \<longrightarrow> chunks_of doc = sentence_fragments doc)
     \<and> fst (ingest_document srv c doc w) = Inr True
     \<and> stored_contents (snd (ingest_document srv c doc w))
         = stored_contents w @ nonempty_fragments doc
     \<and> stored_count (snd (ingest_document srv c doc w))
         = stored_count w + length (nonempty_fragments doc)
     \<and> (rows t = [] \<longrightarrow>
          stored_count (snd (ingest_document srv c doc w)) = length (nonempty_fragments doc))"
proof -
  let ?w1 = "print [Lit (NL @ ''--- Ingesting sample data and creating embeddings ---'')] w"
  have t: "documents ?w1 = Some t" using assms(2) by simp
  have e: "embedded srv (requests ?w1) (chunks_of doc) = Some rs" using assms(3) by simp
  have a: "\<forall>r\<in>set rs. pg_accepts t r" using assms(4) by (simp add: pg_accepts_def)
  from ingest_chunks_all [OF t e a]
  have loop: "fst (ingest_chunks srv (chunks_of doc) ?w1) = True"
    "documents (snd (ingest_chunks srv (chunks_of doc) ?w1)) = Some (t\<lparr>rows := rows t @ rs\<rparr>)"
    by simp_all
  have texts: "map content rs = nonempty_fragments doc"
    using embedded_content [OF assms(3)] by (simp add: chunks_of_fragments)
  then have len: "length rs = length (nonempty_fragments doc)"
    by (metis length_map)
  have run: "fst (ingest_document srv c doc w) = Inr True"
    "documents (snd (ingest_document srv c doc w)) = Some (t\<lparr>rows := rows t @ rs\<rparr>)"
    using loop by (simp_all add: ingest_document_open [OF assms(1)])
  have contents: "stored_contents (snd (ingest_document srv c doc w))
         = stored_contents w @ nonempty_fragments doc"
    using run(2) assms(2) texts by (simp add: stored_contents_def)
  have count: "stored_count (snd (ingest_document srv c doc w))
         = stored_count w + length (nonempty_fragments doc)"
    using run(2) assms(2) len by (simp add: stored_count_def)
  have fresh: "stored_count (snd (ingest_document srv c doc w)) = length (nonempty_fragments doc)"
    if "rows t = []"
    using count that assms(2) by (simp add: stored_count_def)
  from chunks_of_fragments [of doc] chunks_of_sentence_fragments [of doc] run(1) contents count
    fresh
  show ?thesis by blast
qed

text \<open>Witness for C1: the document \<open>A. B. C.\<close> on the table just created, with a service
  whose vectors have 768 components.\<close>

theorem ingest_stores_one_record_per_fragment_witness:
  "connection ready_world = ConnOpen
   \<and> embedded demo_ollama (requests ready_world) (chunks_of ''A. B. C.'')
       = Some [\<lparr>content = ''A'', embedding = demo_vector ''A''\<rparr>,
               \<lparr>content = ''B'', embedding = demo_vector ''B''\<rparr>,
               \<lparr>content = ''C'', embedding = demo_vector ''C''\<rparr>]
   \<and> chunks_of ''A. B. C.'' = sentence_fragments ''A. B. C.''
   \<and> fst (ingest_document demo_ollama PgConnection ''A. B. C.'' ready_world) = Inr True
   \<and> stored_contents (snd (ingest_document demo_ollama PgConnection ''A. B. C.'' ready_world))
       = [''A'', ''B'', ''C'']
   \<and> stored_count (snd (ingest_document demo_ollama PgConnection ''A. B. C.'' ready_world)) = 3"
proof -
  let ?rs = "[\<lparr>content = ''A'', embedding = demo_vector ''A''\<rparr>,
               \<lparr>content = ''B'', embedding = demo_vector ''B''\<rparr>,
               \<lparr>content = ''C'', embedding = demo_vector ''C''\<rparr>]"
  let ?t = "\<lparr>vec_dim = VECTOR_DIMENSION, rows = []\<rparr>"
  have e: "embedded demo_ollama (requests ready_world) (chunks_of ''A. B. C.'') = Some ?rs"
    by (simp add: chunks_of_ABC demo_ollama_def)
  have a: "\<forall>r\<in>set ?rs. length (embedding r) = vec_dim ?t
           \<and> (\<forall>x\<in>set (embedding r). float4_finite x)
           \<and> CHR 0x00 \<notin> set (content r)"
    by (simp add: demo_vector_def VECTOR_DIMENSION_def float4_finite_def)
  have n: "nonempty_fragments ''A. B. C.'' = [''A'', ''B'', ''C'']"
    by (simp add: nonempty_fragments_def str_strip_def py_isspace_def)
  have m: "CHR ''!'' \<notin> set ''A. B. C.'' \<and> CHR ''?'' \<notin> set ''A. B. C.''"
    by simp
  have s: "stored_contents ready_world = []" "stored_count ready_world = 0" "rows ?t = []"
    by (simp_all add: stored_contents_def stored_count_def ready_world_fields)
  note run = ingest_stores_one_record_per_fragment
    [OF ready_world_fields(3) ready_world_fields(2) e a, of PgConnection]
  from run m have sf: "chunks_of ''A. B. C.'' = sentence_fragments ''A. B. C.''"
    by blast
  from run have r: "fst (ingest_document demo_ollama PgConnection ''A. B. C.'' ready_world)
      = Inr True"
    by blast
  from run have "stored_contents
        (snd (ingest_document demo_ollama PgConnection ''A. B. C.'' ready_world))
      = stored_contents ready_world @ nonempty_fragments ''A. B. C.''"
    by blast
  then have sc: "stored_contents
        (snd (ingest_document demo_ollama PgConnection ''A. B. C.'' ready_world))
      = [''A'', ''B'', ''C'']"
    by (simp add: n s)
  from run have "stored_count
        (snd (ingest_document demo_ollama PgConnection ''A. B. C.'' ready_world))
      = stored_count ready_world + length (nonempty_fragments ''A. B. C.'')"
    by blast
  then have cnt: "stored_count
        (snd (ingest_document demo_ollama PgConnection ''A. B. C.'' ready_world)) = 3"
    by (simp add: n s)
  from ready_world_fields(3) e sf r sc cnt show ?thesis
    by blast
qed

text \<open>
  Claim C2: when the embedding request for a chunk fails during the ingestion, after the
  chunks before it have been embedded and inserted (each insert accepted by the database:
  a vector of the dimension of the column with components that stay finite in single
  precision, a text without NUL), \<open>ingest_data\<close> returns \<open>False\<close>; the
  table holds the rows it held before followed by exactly the records of the chunks before
  the failing one, each with the text of its chunk and the vector the service returned for
  it; the failing request was sent once and no request was sent for a later chunk.
\<close>

theorem ingest_aborts_at_failed_request:
  assumes "connection w = ConnOpen" and "documents w = Some t"
    and "chunks_of doc = pre @ chunk # post"
    and "embedded srv (requests w) pre = Some rs"
    and "\<forall>r\<in>set rs. length (embedding r) = vec_dim t
           \<and> (\<forall>x\<in>set (embedding r). float4_finite x)
           \<and> CHR 0x00 \<notin> set (content r)"
    and "embeddings_reply srv (requests w @ map (EmbeddingsRequest EMBEDDING_MODEL) pre)
           EMBEDDING_MODEL chunk = Inl e"
  shows "fst (ingest_document srv c doc w) = Inr False
     \<and> documents (snd (ingest_document srv c doc w)) = Some (t\<lparr>rows := rows t @ rs\<rparr>)
     \<and> map content rs = pre
     \<and> requests (snd (ingest_document srv c doc w))
         = requests w @ map (EmbeddingsRequest EMBEDDING_MODEL) (pre @ [chunk])"
proof -
  let ?w1 = "print [Lit (NL @ ''--- Ingesting sample data and creating embeddings ---'')] w"
  have t: "documents ?w1 = Some t" using assms(2) by simp
  have e: "embedded srv (requests ?w1) pre = Some rs" using assms(4) by simp
  have a: "\<forall>r\<in>set rs. pg_accepts t r" using assms(5) by (simp add: pg_accepts_def)
  have f: "embeddings_reply srv (requests ?w1 @ map (EmbeddingsRequest EMBEDDING_MODEL) pre)
           EMBEDDING_MODEL chunk = Inl e" using assms(6) by simp
  note loop = ingest_chunks_abort [OF t e a f, of post]
  have run: "ingest_document srv c doc w
               = (Inr False, snd (ingest_chunks srv (pre @ chunk # post) ?w1))"
    using loop(1) by (simp add: ingest_document_open [OF assms(1)] assms(3))
  show ?thesis
    unfolding run using loop(2,3) embedded_content [OF assms(4)] by simp
qed

text \<open>Witness for C2: the service fails at the third chunk of \<open>A. B. C.\<close>; the records of
  \<open>A\<close> and \<open>B\<close> stay, three requests were sent.\<close>

theorem ingest_aborts_at_failed_request_witness:
  "chunks_of ''A. B. C.'' = [''A'', ''B''] @ ''C'' # []
   \<and> fst (ingest_document flaky_ollama PgConnection ''A. B. C.'' ready_world) = Inr False
   \<and> documents (snd (ingest_document flaky_ollama PgConnection ''A. B. C.'' ready_world))
       = Some \<lparr>vec_dim = VECTOR_DIMENSION,
               rows = [\<lparr>content = ''A'', embedding = demo_vector ''A''\<rparr>,
                       \<lparr>content = ''B'', embedding = demo_vector ''B''\<rparr>]\<rparr>
   \<and> requests (snd (ingest_document flaky_ollama PgConnection ''A. B. C.'' ready_world))
       = [EmbeddingsRequest EMBEDDING_MODEL ''A'', EmbeddingsRequest EMBEDDING_MODEL ''B'',
          EmbeddingsRequest EMBEDDING_MODEL ''C'']"
proof -
  let ?rs = "[\<lparr>content = ''A'', embedding = demo_vector ''A''\<rparr>,
              \<lparr>content = ''B'', embedding = demo_vector ''B''\<rparr>]"
  let ?t = "\<lparr>vec_dim = VECTOR_DIMENSION, rows = []\<rparr>"
  have c: "chunks_of ''A. B. C.'' = [''A'', ''B''] @ ''C'' # []"
    by (simp add: chunks_of_ABC)
  have e: "embedded flaky_ollama (requests ready_world) [''A'', ''B''] = Some ?rs"
    by (simp add: flaky_ollama_def ready_world_fields)
  have a: "\<forall>r\<in>set ?rs. length (embedding r) = vec_dim ?t
           \<and> (\<forall>x\<in>set (embedding r). float4_finite x)
           \<and> CHR 0x00 \<notin> set (content r)"
    by (simp add: demo_vector_def VECTOR_DIMENSION_def float4_finite_def)
  have f: "embeddings_reply flaky_ollama
             (requests ready_world @ map (EmbeddingsRequest EMBEDDING_MODEL) [''A'', ''B''])
             EMBEDDING_MODEL ''C'' = Inl (RequestError ''connection refused'')"
    by (simp add: flaky_ollama_def ready_world_fields)
  from ingest_aborts_at_failed_request
    [OF ready_world_fields(3) ready_world_fields(2) c e a f] c
  show ?thesis by (simp add: ready_world_fields)
qed

text \<open>
  Claim C3: whenever the retrieval of \<open>run_rag_query\<close> returns, it returns at most three
  records (three, or all of them when the table holds fewer), they are rows of the table,
  and they come in the order of non-decreasing distance between their stored vector and
  the embedding of the query.
\<close>

theorem retrieval_at_most_three_ordered:
  assumes "retrieve_docs srv distance c user_query w = (Inr docs, w')"
  shows "length docs \<le> 3
     \<and> (\<exists>t q. documents w = Some t
           \<and> embeddings_reply srv (requests w) EMBEDDING_MODEL user_query = Inr q
           \<and> docs = map content (nearest_rows distance q (rows t))
           \<and> length docs = min 3 (length (rows t))
           \<and> set (nearest_rows distance q (rows t)) \<subseteq> set (rows t)
           \<and> sorted (map (\<lambda>r. distance (embedding r) q) (nearest_rows distance q (rows t))))"
proof -
  from retrieve_docs_Inr [OF assms] obtain q where
    q: "embeddings_reply srv (requests w) EMBEDDING_MODEL user_query = Inr q"
    and sel: "pg_select_nearest distance q w = Inr docs"
    by blast
  from pg_select_nearest_Inr [OF sel] obtain t where
    t: "documents w = Some t" and docs: "docs = map content (nearest_rows distance q (rows t))"
    by blast
  have "length docs = min 3 (length (rows t))"
    by (simp add: docs length_nearest_rows)
  with t q docs sorted_nearest_rows [of distance q "rows t"]
    set_nearest_rows [of distance q "rows t"]
  show ?thesis by auto
qed

text \<open>Witness for C3: four stored records, the query \<open>B?\<close>; the three nearest are
  returned, nearest first.\<close>

theorem retrieval_at_most_three_ordered_witness:
  "retrieve_docs demo_ollama demo_distance PgConnection ''B?'' stocked_world
     = (Inr [''B'', ''A'', ''C''],
        stocked_world\<lparr>requests := requests stocked_world @ [EmbeddingsRequest EMBEDDING_MODEL ''B?'']\<rparr>)
   \<and> length [''B'', ''A'', ''C''] \<le> 3
   \<and> (\<exists>t q. documents stocked_world = Some t
         \<and> embeddings_reply demo_ollama (requests stocked_world) EMBEDDING_MODEL ''B?'' = Inr q
         \<and> [''B'', ''A'', ''C''] = map content (nearest_rows demo_distance q (rows t))
         \<and> length [''B'', ''A'', ''C''] = min 3 (length (rows t))
         \<and> set (nearest_rows demo_distance q (rows t)) \<subseteq> set (rows t)
         \<and> sorted (map (\<lambda>r. demo_distance (embedding r) q)
              (nearest_rows demo_distance q (rows t))))"
proof -
  have r: "retrieve_docs demo_ollama demo_distance PgConnection ''B?'' stocked_world
     = (Inr [''B'', ''A'', ''C''],
        stocked_world\<lparr>requests := requests stocked_world @ [EmbeddingsRequest EMBEDDING_MODEL ''B?'']\<rparr>)"
    by (simp add: retrieve_docs_def client_embeddings_def conn_cursor_def stocked_world_fields
        pg_select_nearest_def nearest_rows_def demo_ollama_def demo_vector_def demo_distance_def
        VECTOR_DIMENSION_def)
  show ?thesis
    by (rule conjI [OF r retrieval_at_most_three_ordered [OF r]])
qed

text \<open>
  Claim C4: every vector stored in the \<open>documents\<close> table has the configured dimension.
  \<open>setup_database\<close> establishes the invariant whenever it returns a connection, a run
  of \<open>main\<close> on a reachable server with the extension ends in a world that satisfies it,
  and every operation (set-up, a single insert, the ingestion, the query, the whole run)
  preserves it.
\<close>

theorem stored_vectors_have_configured_dimension:
  "(fst (setup_database w) \<noteq> None \<longrightarrow> dimension_invariant (snd (setup_database w)))
   \<and> (pg_unreachable w = None \<and> pg_vector_installed w
        \<longrightarrow> dimension_invariant (snd (main srv distance w)))
   \<and> (dimension_invariant w \<longrightarrow>
         dimension_invariant (snd (setup_database w))
       \<and> dimension_invariant (snd (pg_insert body vec w))
       \<and> dimension_invariant (snd (ingest_document srv c doc w))
       \<and> dimension_invariant (snd (ingest_data srv c w))
       \<and> dimension_invariant (snd (run_rag_query srv distance c user_query w))
       \<and> dimension_invariant (snd (main srv distance w)))"
proof (intro conjI impI)
  show "dimension_invariant (snd (setup_database w))" if "fst (setup_database w) \<noteq> None"
    using that by (rule setup_database_establishes)
  show "dimension_invariant (snd (main srv distance w))"
    if "pg_unreachable w = None \<and> pg_vector_installed w"
    using that by (simp add: main_establishes)
next
  assume inv: "dimension_invariant w"
  show "dimension_invariant (snd (setup_database w))"
    using inv by (rule setup_database_invariant)
  show "dimension_invariant (snd (pg_insert body vec w))"
    using inv by (rule pg_insert_invariant)
  show "dimension_invariant (snd (ingest_document srv c doc w))"
    using inv by (rule ingest_document_invariant)
  show "dimension_invariant (snd (ingest_data srv c w))"
    unfolding ingest_data_def using inv by (rule ingest_document_invariant)
  show "dimension_invariant (snd (run_rag_query srv distance c user_query w))"
    using inv by (simp add: dimension_invariant_def)
  show "dimension_invariant (snd (main srv distance w))"
    using inv by (rule main_invariant)
qed

text \<open>Witness for C4: the set-up from the initial world; on the table with four records,
  an insert of a vector of 768 components is stored, an insert of a vector of two
  components is rejected, and the invariant holds after both.\<close>

theorem stored_vectors_have_configured_dimension_witness:
  "fst (setup_database initial_world) = Some PgConnection
   \<and> dimension_invariant (snd (setup_database initial_world))
   \<and> dimension_invariant stocked_world
   \<and> stored_count stocked_world = 4
   \<and> dimension_invariant (snd (pg_insert ''E'' (demo_vector ''E'') stocked_world))
   \<and> stored_count (snd (pg_insert ''E'' (demo_vector ''E'') stocked_world)) = 5
   \<and> dimension_invariant (snd (pg_insert ''F'' [1, 2] stocked_world))
   \<and> stored_count (snd (pg_insert ''F'' [1, 2] stocked_world)) = 4"
proof -
  have s: "fst (setup_database initial_world) = Some PgConnection"
    by (simp add: ready_world_fields)
  have i: "dimension_invariant stocked_world"
    by (simp add: dimension_invariant_def stocked_world_fields demo_vector_def VECTOR_DIMENSION_def)
  from stored_vectors_have_configured_dimension [of initial_world demo_ollama demo_distance]
    stored_vectors_have_configured_dimension [of stocked_world demo_ollama demo_distance "''E''" "demo_vector ''E''"]
    stored_vectors_have_configured_dimension [of stocked_world demo_ollama demo_distance "''F''" "[1, 2]"]
    s i
  show ?thesis
    by (simp add: stored_count_def pg_insert_def stocked_world_fields demo_vector_def
        VECTOR_DIMENSION_def float4_finite_def)
qed

text \<open>
  Claim C5 fails on the code: when the server is reachable and the extension is missing,
  \<open>setup_database\<close> has opened the connection and returns \<open>None\<close> without closing it;
  \<open>main\<close> then returns, and the connection is still open. The other exits of \<open>main\<close>
  close it (\<open>main_closes_after_setup\<close>).
\<close>

theorem connection_left_open_without_extension:
  "fst (main demo_ollama demo_distance no_extension_world) = Inr ()
   \<and> connection (snd (main demo_ollama demo_distance no_extension_world)) = ConnOpen"
  by (simp add: main_def no_extension_world_def initial_world_def setup_database_def
      pg_connect_def)

text \<open>
  Claim C6: when the server is reachable and the vector extension is absent,
  \<open>setup_database\<close> prints that the extension was not found and returns no connection;
  the \<open>documents\<close> table is as it was, neither dropped nor created; \<open>main\<close> ends in
  the world that \<open>setup_database\<close> left, so the ingestion is not invoked: no request
  is sent to the embedding service and nothing is written.
\<close>

theorem missing_extension_aborts_before_write:
  assumes "pg_unreachable w = None" and "\<not> pg_vector_installed w"
  shows "fst (setup_database w) = None
     \<and> documents (snd (setup_database w)) = documents w
     \<and> console (snd (setup_database w))
         = console w
           @ [Lit (NL @ ''--- Connecting to PostgreSQL database ---''), Lit NL,
              Lit ''Connection successful!'', Lit NL,
              Lit ''pgvector extension not found. Please ensure your Docker image supports it.'', Lit NL,
              Lit ''This script uses the 'ankane/pgvector' Docker image which has it pre-installed.'', Lit NL,
              Lit ''If you're running a different PostgreSQL image, you may need to install it manually.'', Lit NL]
     \<and> main srv distance w
         = (Inr (),
            snd (setup_database
                  (print [Lit ''This script will demonstrate how to build a RAG system using local tools.'']
                    (print [Lit ''Welcome to the Interactive RAG Tutorial!''] w))))
     \<and> documents (snd (main srv distance w)) = documents w
     \<and> requests (snd (main srv distance w)) = requests w"
proof -
  let ?w2 = "print [Lit ''This script will demonstrate how to build a RAG system using local tools.'']
                 (print [Lit ''Welcome to the Interactive RAG Tutorial!''] w)"
  have a2: "pg_unreachable ?w2 = None" "\<not> pg_vector_installed ?w2"
    using assms by simp_all
  have m: "main srv distance w = (Inr (), snd (setup_database ?w2))"
    unfolding main_cases Let_def by (simp add: setup_database_no_extension [OF a2])
  show ?thesis
    unfolding m by (simp add: setup_database_no_extension [OF assms]
        setup_database_no_extension [OF a2])
qed

text \<open>Witness for C6: the initial world without the extension.\<close>

theorem missing_extension_aborts_before_write_witness:
  "pg_unreachable no_extension_world = None \<and> \<not> pg_vector_installed no_extension_world
   \<and> fst (setup_database no_extension_world) = None
   \<and> documents (snd (setup_database no_extension_world)) = documents no_extension_world
   \<and> documents (snd (main demo_ollama demo_distance no_extension_world)) = None
   \<and> requests (snd (main demo_ollama demo_distance no_extension_world)) = []"
proof -
  have h: "pg_unreachable no_extension_world = None" "\<not> pg_vector_installed no_extension_world"
    by (simp_all add: no_extension_world_def initial_world_def)
  have d: "documents no_extension_world = None" "requests no_extension_world = []"
    by (simp_all add: no_extension_world_def initial_world_def)
  from missing_extension_aborts_before_write [OF h, of demo_ollama demo_distance] h d show ?thesis
    by (elim conjE, intro conjI; (assumption | simp))
qed

text \<open>
  Claim C7: when the store is unreachable, \<open>setup_database\<close> catches the
  \<open>OperationalError\<close> of \<open>psycopg.connect\<close>, prints the connectivity failure with its
  details and returns no connection. Nothing but the console changes: no table is created,
  no connection exists, and \<open>main\<close> returns without running a later stage.
\<close>

theorem unreachable_store_changes_nothing:
  assumes "pg_unreachable w = Some m"
  shows "setup_database w
       = (None,
          w\<lparr>console := console w
               @ [Lit (NL @ ''--- Connecting to PostgreSQL database ---''), Lit NL,
                  Lit (NL @ ''Error: Could not connect to PostgreSQL. Please ensure the Docker container is running and accessible.''), Lit NL,
                  Lit ''Details: '', Exn (OperationalError m), Lit NL]\<rparr>)
     \<and> main srv distance w
       = (Inr (),
          w\<lparr>console := console w
               @ [Lit ''Welcome to the Interactive RAG Tutorial!'', Lit NL,
                  Lit ''This script will demonstrate how to build a RAG system using local tools.'', Lit NL,
                  Lit (NL @ ''--- Connecting to PostgreSQL database ---''), Lit NL,
                  Lit (NL @ ''Error: Could not connect to PostgreSQL. Please ensure the Docker container is running and accessible.''), Lit NL,
                  Lit ''Details: '', Exn (OperationalError m), Lit NL]\<rparr>)"
proof -
  let ?w2 = "print [Lit ''This script will demonstrate how to build a RAG system using local tools.'']
                 (print [Lit ''Welcome to the Interactive RAG Tutorial!''] w)"
  have a2: "pg_unreachable ?w2 = Some m" using assms by simp
  have m: "main srv distance w = (Inr (), snd (setup_database ?w2))"
    unfolding main_cases Let_def by (simp add: setup_database_unreachable [OF a2])
  show ?thesis
    unfolding m setup_database_unreachable [OF assms] setup_database_unreachable [OF a2]
    by (simp add: print_def print_end_def)
qed

text \<open>Witness for C7: the initial world with a server that refuses the connection.\<close>

theorem unreachable_store_changes_nothing_witness:
  "pg_unreachable unreachable_world = Some ''connection refused''
   \<and> fst (setup_database unreachable_world) = None
   \<and> documents (snd (setup_database unreachable_world)) = documents unreachable_world
   \<and> connection (snd (main demo_ollama demo_distance unreachable_world)) = NoConnection
   \<and> documents (snd (main demo_ollama demo_distance unreachable_world)) = None
   \<and> requests (snd (main demo_ollama demo_distance unreachable_world)) = []"
proof -
  have h: "pg_unreachable unreachable_world = Some ''connection refused''"
    by (simp add: unreachable_world_def initial_world_def)
  have d: "documents unreachable_world = None" "requests unreachable_world = []"
    "connection unreachable_world = NoConnection"
    by (simp_all add: unreachable_world_def initial_world_def)
  from unreachable_store_changes_nothing [OF h, of demo_ollama demo_distance] h d show ?thesis
    by (elim conjE, intro conjI; (assumption | simp))
qed



text \<open>
  Claim C9: when the document has no non-empty fragment after splitting and trimming,
  \<open>ingest_data\<close> on an open connection prints its two banners and returns \<open>True\<close>; it
  sends no embedding request and inserts no record. A document made of whitespace and full
  stops only is such a document (\<open>chunks_of_blank\<close>), and so is the empty document.
\<close>

theorem empty_ingestion_succeeds:
  assumes "connection w = ConnOpen" and "chunks_of doc = []"
  shows "ingest_document srv c doc w
       = (Inr True,
          print [Lit (NL @ ''Data ingestion complete.'')]
            (print [Lit (NL @ ''--- Ingesting sample data and creating embeddings ---'')] w))
     \<and> requests (snd (ingest_document srv c doc w)) = requests w
     \<and> documents (snd (ingest_document srv c doc w)) = documents w"
  by (simp add: ingest_document_open [OF assms(1)] assms(2))

text \<open>Witness for C9: the empty document, and a document of spaces and full stops.\<close>

theorem empty_ingestion_succeeds_witness:
  "connection ready_world = ConnOpen \<and> chunks_of [] = [] \<and> chunks_of '' . .  '' = []
   \<and> fst (ingest_document demo_ollama PgConnection [] ready_world) = Inr True
   \<and> requests (snd (ingest_document demo_ollama PgConnection [] ready_world)) = []
   \<and> fst (ingest_document demo_ollama PgConnection '' . .  '' ready_world) = Inr True
   \<and> requests (snd (ingest_document demo_ollama PgConnection '' . .  '' ready_world)) = []
   \<and> stored_count (snd (ingest_document demo_ollama PgConnection '' . .  '' ready_world)) = 0"
proof -
  have e: "chunks_of [] = []"
    by (simp add: chunks_of_def str_strip_def)
  have b: "chunks_of '' . .  '' = []"
    by (rule chunks_of_blank) (simp add: py_isspace_def)
  from empty_ingestion_succeeds [OF ready_world_fields(3) e, of demo_ollama PgConnection]
    empty_ingestion_succeeds [OF ready_world_fields(3) b, of demo_ollama PgConnection] e b
  show ?thesis
    by (simp add: ready_world_fields stored_count_def)
qed

text \<open>
  Claim C10: when the table is empty at query time and the remote calls succeed (the
  embedding of the question, the nearest-neighbour query, the streamed generation),
  \<open>run_rag_query\<close> retrieves zero records, builds the empty context, sends the generation
  request with the fixed template around the empty context and the question, and returns
  the concatenation of the streamed fragments in their order.
\<close>

theorem empty_table_query_answers:
  assumes "connection w = ConnOpen" and "documents w = Some t" and "rows t = []"
    and "embeddings_reply srv (requests w) EMBEDDING_MODEL user_query = Inr q"
    and "pg_select_nearest distance q w = Inr docs"
    and "generate_reply srv (requests w @ [EmbeddingsRequest EMBEDDING_MODEL user_query])
           GENERATION_MODEL (rag_prompt [] user_query) = (stream, None)"
  shows "docs = [] \<and> str_join '' '' docs = []
     \<and> rag_prompt (str_join '' '' docs) user_query
         = ''Based on the provided context, answer the question clearly and helpfully. Use only information from the context.''
           @ NL @ NL @ ''Context: '' @ NL @ NL @ ''Question: '' @ user_query
           @ NL @ NL @ ''Answer:''
     \<and> fst (run_rag_query srv distance c user_query w) = Some (concat stream)
     \<and> requests (snd (run_rag_query srv distance c user_query w))
         = requests w @ [EmbeddingsRequest EMBEDDING_MODEL user_query,
                         GenerateRequest GENERATION_MODEL (rag_prompt [] user_query)]"
proof -
  from pg_select_nearest_Inr [OF assms(5)] assms(2,3) have docs: "docs = []"
    by (auto simp add: nearest_rows_def)
  have g: "generate_reply srv (requests w @ [EmbeddingsRequest EMBEDDING_MODEL user_query])
           GENERATION_MODEL (rag_prompt (str_join '' '' docs) user_query) = (stream, None)"
    using assms(6) by (simp add: docs)
  note run = run_rag_query_answer [OF assms(1) assms(4) assms(5) g, of c]
  show ?thesis
    using run by (simp add: docs rag_prompt_def)
qed

text \<open>Witness for C10: a question asked right after the set-up.\<close>

theorem empty_table_query_answers_witness:
  "pg_select_nearest demo_distance (demo_vector ''Why?'') ready_world = Inr []
   \<and> fst (run_rag_query demo_ollama demo_distance PgConnection ''Why?'' ready_world)
       = Some ''Llamas are calm.''
   \<and> requests (snd (run_rag_query demo_ollama demo_distance PgConnection ''Why?'' ready_world))
       = [EmbeddingsRequest EMBEDDING_MODEL ''Why?'',
          GenerateRequest GENERATION_MODEL (rag_prompt [] ''Why?'')]"
proof -
  let ?t = "\<lparr>vec_dim = VECTOR_DIMENSION, rows = []\<rparr>"
  have r: "rows ?t = []" by simp
  have q: "embeddings_reply demo_ollama (requests ready_world) EMBEDDING_MODEL ''Why?''
             = Inr (demo_vector ''Why?'')"
    by (simp add: demo_ollama_def)
  have s: "pg_select_nearest demo_distance (demo_vector ''Why?'') ready_world = Inr []"
    by (simp add: pg_select_nearest_def ready_world_fields demo_vector_def nearest_rows_def
        VECTOR_DIMENSION_def)
  have g: "generate_reply demo_ollama
             (requests ready_world @ [EmbeddingsRequest EMBEDDING_MODEL ''Why?''])
             GENERATION_MODEL (rag_prompt [] ''Why?'') = ([''Llamas '', ''are calm.''], None)"
    by (simp add: demo_ollama_def)
  from empty_table_query_answers [OF ready_world_fields(3) ready_world_fields(2) r q s g, of PgConnection] s
  show ?thesis
    by (simp add: ready_world_fields)
qed

end
